theory Spec2Isabelle
  imports Complex_Main "HOL-Library.Multiset" "HOL-Library.AList"
begin

section \<open>JavaScript strings as the routes use them\<close>

text \<open>
  A JavaScript string is modelled as a HOL \<open>string\<close>; the routes only compare strings,
  split them at fixed separators and strip white space. Numbers that hold counts and
  time stamps are modelled as \<open>int\<close> (the routes only add and compare them, which is
  exact on doubles below \<open>2 ^ 53\<close>).
\<close>

definition isWhiteSpace :: "char \<Rightarrow> bool" where
  "isWhiteSpace c = (of_char c \<in> {9, 10, 11, 12, 13, 32, 160 :: nat})"

text \<open>\<^verbatim>\<open>String.prototype.trim\<close>.\<close>

definition js_trim :: "string \<Rightarrow> string" where
  "js_trim s = rev (dropWhile isWhiteSpace (rev (dropWhile isWhiteSpace s)))"

text \<open>
  \<^verbatim>\<open>String.prototype.split\<close> with a one-character separator (\<^verbatim>\<open>";"\<close>, \<^verbatim>\<open>"="\<close>): the
  empty string splits into one empty piece, and a trailing separator leaves an empty
  last piece.
\<close>

fun js_split :: "char \<Rightarrow> string \<Rightarrow> string list" where
  "js_split sep [] = [[]]"
| "js_split sep (c # cs) =
     (if c = sep then [] # js_split sep cs
      else (case js_split sep cs of
              [] \<Rightarrow> [[c]]
            | piece # pieces \<Rightarrow> (c # piece) # pieces))"



text \<open>Reading an array element that may be absent (\<^verbatim>\<open>undefined\<close> is \<open>None\<close>).\<close>

definition js_index :: "'a list \<Rightarrow> nat \<Rightarrow> 'a option" where
  "js_index xs i = (if i < length xs then Some (xs ! i) else None)"

text \<open>\<^verbatim>\<open>x || null\<close> on a string that may be \<^verbatim>\<open>undefined\<close>: the empty string is falsy.\<close>

definition truthy :: "string option \<Rightarrow> string option" where
  "truthy v = (case v of None \<Rightarrow> None | Some s \<Rightarrow> if s = [] then None else Some s)"

section \<open>The session cookie\<close>

text \<open>
  \<^verbatim>\<open>getUsername\<close> of the characters and progress routes (and the cookie check of the
  auth route): the header is split at \<^verbatim>\<open>";"\<close>, each piece is trimmed and split at
  \<^verbatim>\<open>"="\<close>, and the second part is stored under the first; the value stored under
  \<^verbatim>\<open>"user"\<close> is returned. The argument is \<^verbatim>\<open>request.headers.get("cookie")\<close>.
\<close>

definition cookieReducer :: "(string \<Rightarrow> string option) \<Rightarrow> string \<Rightarrow> (string \<Rightarrow> string option)" where
  "cookieReducer acc cookie =
     (let parts = js_split CHR ''='' (js_trim cookie)
      in acc (hd parts := js_index parts 1))"

definition getUsername :: "string option \<Rightarrow> string option" where
  "getUsername cookieHeader =
     (case cookieHeader of
        None \<Rightarrow> None
      | Some h \<Rightarrow>
          if h = [] then None
          else truthy (foldl cookieReducer (\<lambda>_. None) (js_split CHR '';'' h) ''user''))"




section \<open>The data directory\<close>

text \<open>
  Every store is one CSV file that a request reads whole and rewrites whole. A file is
  represented by the records the route's \<^verbatim>\<open>parseCSV\<close> reads from it, and writing
  \<^verbatim>\<open>toCSV records\<close> stores those records. \<open>Missing\<close> is a path for which
  \<^verbatim>\<open>fs.existsSync\<close> answers false; \<open>Unreadable\<close> is a path that exists and on which
  \<^verbatim>\<open>fs.readFileSync\<close> throws.
\<close>

datatype 'a node = Missing | Stored 'a | Unreadable

record stats =
  correct :: int
  incorrect :: int

text \<open>
  \<^verbatim>\<open>Record<string, { correct: number; incorrect: number }>\<close>: the properties of the
  object in insertion order.
\<close>

type_synonym progress = "(string \<times> stats) list"

record Character =
  id_field :: string
  character :: string
  pinyin :: string
  meaning :: string
  phrase :: string

record QuizSession =
  timestamp :: int
  quizType :: string
  totalQuestions :: int
  correctAnswers :: int
  accuracy :: int

text \<open>The directory \<^verbatim>\<open>data/users/<username>\<close> with its three stores.\<close>

record userdir =
  charactersFile :: "Character list node"
  progressFile :: "progress node"
  quizHistoryFile :: "QuizSession list node"

text \<open>
  \<^verbatim>\<open>data/users.csv\<close> (the \<^verbatim>\<open>Map\<close> of user names to password hashes, in insertion
  order) and the user directories that exist.
\<close>

record filesystem =
  usersFile :: "(string \<times> string) list node"
  userDirs :: "string \<Rightarrow> userdir option"

definition emptyDir :: userdir where
  "emptyDir = \<lparr>charactersFile = Missing, progressFile = Missing, quizHistoryFile = Missing\<rparr>"

text \<open>\<^verbatim>\<open>ensureUserDir\<close>: the directory is created when it does not exist.\<close>

definition ensureUserDir :: "filesystem \<Rightarrow> string \<Rightarrow> filesystem" where
  "ensureUserDir fs username =
     (case userDirs fs username of
        None \<Rightarrow> fs\<lparr>userDirs := (userDirs fs)(username \<mapsto> emptyDir)\<rparr>
      | Some d \<Rightarrow> fs)"

definition userDir :: "filesystem \<Rightarrow> string \<Rightarrow> userdir" where
  "userDir fs username = (case userDirs fs username of None \<Rightarrow> emptyDir | Some d \<Rightarrow> d)"

definition updateUserDir :: "filesystem \<Rightarrow> string \<Rightarrow> (userdir \<Rightarrow> userdir) \<Rightarrow> filesystem" where
  "updateUserDir fs username f = fs\<lparr>userDirs := (userDirs fs)(username \<mapsto> f (userDir fs username))\<rparr>"

text \<open>A data directory in which nothing has been stored yet.\<close>

definition emptyFs :: filesystem where
  "emptyFs = \<lparr>usersFile = Missing, userDirs = (\<lambda>_. None)\<rparr>"

text \<open>
  A response: the JSON payload of a successful answer, or the status and the
  \<^verbatim>\<open>error\<close> message of a failing one.
\<close>

datatype 'a reply = Reply 'a | Failure nat string

section \<open>The progress route\<close>












section \<open>The characters route\<close>


text \<open>The payload of a successful \<^verbatim>\<open>POST\<close>: \<^verbatim>\<open>count\<close>, \<^verbatim>\<open>added\<close> and \<^verbatim>\<open>skipped\<close>.\<close>

record addReply =
  count_field :: nat
  added :: nat
  skipped :: nat

text \<open>
  The incoming records whose glyph is not among the glyphs already stored
  (\<^verbatim>\<open>uniqueNewCharacters\<close>).
\<close>

definition uniqueNewCharacters :: "Character list \<Rightarrow> Character list \<Rightarrow> Character list" where
  "uniqueNewCharacters existingCharacters newCharacters =
     (let existingCharSet = set (map character existingCharacters)
      in filter (\<lambda>newChar. character newChar \<notin> existingCharSet) newCharacters)"

definition addCharacters :: "Character list \<Rightarrow> Character list \<Rightarrow> Character list \<times> addReply" where
  "addCharacters existingCharacters newCharacters =
     (let uniqueNew = uniqueNewCharacters existingCharacters newCharacters;
          allCharacters = existingCharacters @ uniqueNew
      in (allCharacters,
          \<lparr>count_field = length allCharacters,
           added = length uniqueNew,
           skipped = length newCharacters - length uniqueNew\<rparr>))"

definition characters_POST ::
  "filesystem \<Rightarrow> string option \<Rightarrow> Character list \<Rightarrow> filesystem \<times> addReply reply" where
  "characters_POST fs cookieHeader newCharacters =
     (case getUsername cookieHeader of
        None \<Rightarrow> (fs, Failure 401 ''Not authenticated'')
      | Some username \<Rightarrow>
          (let fs1 = ensureUserDir fs username
           in case charactersFile (userDir fs1 username) of
                Unreadable \<Rightarrow> (fs1, Failure 500 ''Failed to save characters'')
              | Missing \<Rightarrow>
                  (let (allCharacters, r) = addCharacters [] newCharacters
                   in (updateUserDir fs1 username (\<lambda>d. d\<lparr>charactersFile := Stored allCharacters\<rparr>),
                       Reply r))
              | Stored existingCharacters \<Rightarrow>
                  (let (allCharacters, r) = addCharacters existingCharacters newCharacters
                   in (updateUserDir fs1 username (\<lambda>d. d\<lparr>charactersFile := Stored allCharacters\<rparr>),
                       Reply r))))"

definition storedCharacters :: "filesystem \<Rightarrow> string \<Rightarrow> Character list" where
  "storedCharacters fs username =
     (case charactersFile (userDir fs username) of Stored cs \<Rightarrow> cs | Missing \<Rightarrow> [] | Unreadable \<Rightarrow> [])"

text \<open>
  Three records for examples: two with the glyph U+597D (in UTF-8) under different
  identifiers, and one with the glyph U+4EBA.
\<close>

definition good1 :: Character where
  "good1 = \<lparr>id_field = ''17000000000001'', character = [CHR 0xE5, CHR 0xA5, CHR 0xBD],
             pinyin = ''hao3'', meaning = ''good'', phrase = []\<rparr>"

definition good2 :: Character where
  "good2 = \<lparr>id_field = ''17000000000002'', character = [CHR 0xE5, CHR 0xA5, CHR 0xBD],
             pinyin = ''hao3'', meaning = ''fine'', phrase = []\<rparr>"

definition person :: Character where
  "person = \<lparr>id_field = ''17000000000003'', character = [CHR 0xE4, CHR 0xBA, CHR 0xBA],
              pinyin = ''ren2'', meaning = ''person'', phrase = []\<rparr>"

section \<open>The quiz-history route\<close>













section \<open>The auth route\<close>














section \<open>The progress dashboard\<close>

text \<open>
  The dashboard divides and multiplies JavaScript numbers, which are IEEE 754 doubles.
  A finite double is modelled by a pair \<open>(m, e)\<close> of integers that stands for
  \<open>m * 2 ^ e\<close>, with a significand \<open>m\<close> of at most 53 bits; every operation computes the
  exact result and rounds it once to 53 bits, a tie going to the even significand. The
  exponent is not bounded (the quotients and products of the dashboard are far from the
  subnormal and the overflow range).
\<close>

type_synonym double = "int \<times> int"

text \<open>The number of bits of a natural number.\<close>

fun bitLength :: "nat \<Rightarrow> nat" where
  "bitLength n = (if n = 0 then 0 else Suc (bitLength (n div 2)))"

declare bitLength.simps [simp del]

text \<open>\<open>m / 2 ^ k\<close> rounded to the nearest integer, a tie going to the even one.\<close>

definition roundShift :: "int \<Rightarrow> nat \<Rightarrow> int" where
  "roundShift m k =
     (let q = m div 2 ^ k; r = m mod 2 ^ k
      in if 2 * r < 2 ^ k then q
         else if 2 ^ k < 2 * r then q + 1
         else if even q then q else q + 1)"

text \<open>The double nearest to the exact value \<open>m * 2 ^ e\<close>.\<close>

definition round53 :: "int \<Rightarrow> int \<Rightarrow> double" where
  "round53 m e = (let k = bitLength (nat \<bar>m\<bar>) - 53 in (roundShift m k, e + int k))"

text \<open>
  \<^verbatim>\<open>a / b\<close> on two integers that are doubles, \<open>b\<close> not zero. The quotient of the
  magnitudes is computed to more than 55 bits, with one more bit that records whether
  the division left a remainder, and is then rounded.
\<close>

definition divDouble :: "int \<Rightarrow> int \<Rightarrow> double" where
  "divDouble a b =
     (let s = 55 + bitLength (nat \<bar>b\<bar>);
          n = \<bar>a\<bar> * 2 ^ s;
          q = n div \<bar>b\<bar>;
          sticky = (if n mod \<bar>b\<bar> = 0 then 0 else 1);
          (m, e) = round53 (2 * q + sticky) (- int s - 1)
      in (sgn a * sgn b * m, e))"

text \<open>\<^verbatim>\<open>x * y\<close> on two doubles.\<close>

definition mulDouble :: "double \<Rightarrow> double \<Rightarrow> double" where
  "mulDouble x y = round53 (fst x * fst y) (snd x + snd y)"

text \<open>\<^verbatim>\<open>Math.round\<close>: the nearest integer, a tie going up.\<close>

definition Math_round :: "double \<Rightarrow> int" where
  "Math_round x =
     (let m = fst x; e = snd x
      in if 0 \<le> e then m * 2 ^ nat e
         else (m + 2 ^ (nat (- e) - 1)) div 2 ^ nat (- e))"

text \<open>\<^verbatim>\<open>Math.round((c / n) * 100)\<close> on two counts.\<close>

definition percentage :: "int \<Rightarrow> int \<Rightarrow> int" where
  "percentage c n = Math_round (mulDouble (divDouble c n) (100, 0))"





text \<open>
  Two characters for examples and a progress in which the first has 8 correct and 2
  incorrect answers and the second has none.
\<close>

definition charA :: Character where
  "charA = \<lparr>id_field = ''1'', character = ''A'', pinyin = ''a1'', meaning = ''first'', phrase = []\<rparr>"

definition charB :: Character where
  "charB = \<lparr>id_field = ''2'', character = ''B'', pinyin = ''b2'', meaning = ''second'', phrase = []\<rparr>"


text \<open>A third character and a pool of six characters for examples.\<close>

definition charC :: Character where
  "charC = \<lparr>id_field = ''3'', character = ''C'', pinyin = ''c3'', meaning = ''third'', phrase = []\<rparr>"

definition quizPool :: "Character list" where
  "quizPool = [good1, good2, person, charA, charB, charC]"

section \<open>The recognition quiz\<close>

text \<open>
  One turn of the loop that collects wrong options: nothing is added once there are
  four options, and a pinyin that is already an option is passed over.
\<close>

definition addOption :: "string list \<Rightarrow> Character \<Rightarrow> string list" where
  "addOption options ch =
     (if length options \<ge> 4 then options
      else if pinyin ch \<in> set options then options
      else options @ [pinyin ch])"

text \<open>
  \<^verbatim>\<open>generatePinyinOptions\<close>. The two calls of \<^verbatim>\<open>sort(() => Math.random() - 0.5)\<close>
  are the parameters \<open>shuffleChars\<close> and \<open>shuffleOptions\<close>; an index outside the quiz
  characters throws (\<open>None\<close>).
\<close>

definition generatePinyinOptions ::
  "(Character list \<Rightarrow> Character list) \<Rightarrow> (string list \<Rightarrow> string list) \<Rightarrow>
   Character list \<Rightarrow> nat \<Rightarrow> Character list \<Rightarrow> string list option" where
  "generatePinyinOptions shuffleChars shuffleOptions allCharacters index chars =
     (if index < length chars then
        (let correctChar = chars ! index;
             otherChars = filter (\<lambda>c. id_field c \<noteq> id_field correctChar) allCharacters;
             shuffledOthers = shuffleChars otherChars;
             options = foldl addOption [pinyin correctChar] shuffledOthers
         in Some (shuffleOptions (take 4 options)))
      else None)"

text \<open>\<^verbatim>\<open>handleRecognitionAnswer\<close>: the value of \<^verbatim>\<open>isCorrect\<close>.\<close>

definition handleRecognitionAnswer :: "Character \<Rightarrow> string \<Rightarrow> bool" where
  "handleRecognitionAnswer currentCharacter selectedPinyinOption =
     (selectedPinyinOption = pinyin currentCharacter)"

section \<open>Progress merges add up\<close>















lemma getUsername_bob: "getUsername (Some ''user=bob'') = Some ''bob''"
  by (simp add: getUsername_def cookieReducer_def js_trim_def isWhiteSpace_def js_index_def truthy_def)





section \<open>Progress counts and negative increments\<close>




section \<open>Adding characters\<close>

lemma characters_POST_result:
  assumes "getUsername c = Some u" and "charactersFile (userDir fs u) \<noteq> Unreadable"
  shows "storedCharacters (fst (characters_POST fs c batch)) u =
           fst (addCharacters (storedCharacters fs u) batch)"
    and "snd (characters_POST fs c batch) = Reply (snd (addCharacters (storedCharacters fs u) batch))"
  using assms
  by (auto simp: characters_POST_def storedCharacters_def userDir_def ensureUserDir_def
      updateUserDir_def Let_def emptyDir_def split: option.splits node.splits prod.splits)

lemma emptyFs_characters:
  "charactersFile (userDir emptyFs u) = Missing" "storedCharacters emptyFs u = []"
  by (simp_all add: storedCharacters_def userDir_def emptyFs_def emptyDir_def)


text \<open>
  C2. The route filters the incoming records against the glyphs that are already stored
  and not against each other: a request on an empty store whose batch holds the same
  glyph twice stores both records and reports two added and none skipped.
\<close>

theorem characters_POST_keeps_batch_duplicates:
  "storedCharacters (fst (characters_POST emptyFs (Some ''user=bob'') [good1, good2])) ''bob''
     = [good1, good2]
   \<and> character good1 = character good2
   \<and> \<not> distinct (map character
         (storedCharacters (fst (characters_POST emptyFs (Some ''user=bob'') [good1, good2])) ''bob''))
   \<and> snd (characters_POST emptyFs (Some ''user=bob'') [good1, good2])
     = Reply \<lparr>count_field = 2, added = 2, skipped = 0\<rparr>"
proof -
  have r: "charactersFile (userDir emptyFs ''bob'') \<noteq> Unreadable"
    by (simp add: emptyFs_characters)
  have g: "character good1 = character good2"
    by (simp add: good1_def good2_def)
  have s: "storedCharacters (fst (characters_POST emptyFs (Some ''user=bob'') [good1, good2])) ''bob''
     = [good1, good2]"
    by (simp add: characters_POST_result(1) [OF getUsername_bob r] emptyFs_characters
        addCharacters_def uniqueNewCharacters_def)
  have p: "snd (characters_POST emptyFs (Some ''user=bob'') [good1, good2])
     = Reply \<lparr>count_field = 2, added = 2, skipped = 0\<rparr>"
    by (simp add: characters_POST_result(2) [OF getUsername_bob r] emptyFs_characters
        addCharacters_def uniqueNewCharacters_def)
  show ?thesis
    unfolding s p using g by simp
qed

text \<open>
  Glyphs stay unique when the incoming batch has no glyph twice.
\<close>

lemma addCharacters_distinct:
  assumes "distinct (map character existing)" and "distinct (map character batch)"
  shows "distinct (map character (fst (addCharacters existing batch)))"
  using assms
  by (auto simp: addCharacters_def uniqueNewCharacters_def Let_def distinct_map_filter)
     (metis imageI)



section \<open>The quiz history keeps the 50 newest sessions\<close>















section \<open>The overall accuracy of the dashboard\<close>




lemma bitLength_numeral:
  "bitLength 0 = 0" "bitLength (Suc 0) = 1"
  "bitLength (numeral k) = Suc (bitLength (numeral k div 2))"
  by (simp_all add: bitLength.simps [of 0] bitLength.simps [of "Suc 0"]
      bitLength.simps [of "numeral k"])


text \<open>
  The quotient is rounded before it is multiplied: 29 correct answers out of 200 give
  \<^verbatim>\<open>14.499999999999998\<close> and not 14.5, and the dashboard shows 14.
\<close>

lemma percentage_double_rounding: "percentage 29 200 = 14"
  by (simp add: percentage_def divDouble_def mulDouble_def round53_def roundShift_def
      Math_round_def bitLength_numeral Let_def)


section \<open>Reading a store that cannot be read\<close>










section \<open>The options of a recognition question\<close>

lemma addOption_invariant:
  assumes "distinct options" and "length options \<le> 4"
  shows "distinct (addOption options ch)" and "length (addOption options ch) \<le> 4"
    and "set options \<subseteq> set (addOption options ch)"
    and "set (addOption options ch) \<subseteq> insert (pinyin ch) (set options)"
  using assms by (auto simp: addOption_def)

lemma collect_options:
  assumes "distinct options" and "length options \<le> 4"
  shows "distinct (foldl addOption options others)"
    and "length (foldl addOption options others) \<le> 4"
    and "set options \<subseteq> set (foldl addOption options others)"
    and "set (foldl addOption options others) \<subseteq> set options \<union> pinyin ` set others"
  using assms
proof (induction others arbitrary: options)
  case Nil
  {
    case 1 then show ?case by simp
  next
    case 2 then show ?case by simp
  next
    case 3 then show ?case by simp
  next
    case 4 then show ?case by simp
  }
next
  case (Cons ch others)
  {
    case 1
    then show ?case using Cons.IH(1) [of "addOption options ch"] addOption_invariant [of options ch]
      by simp
  next
    case 2
    then show ?case using Cons.IH(2) [of "addOption options ch"] addOption_invariant [of options ch]
      by simp
  next
    case 3
    then show ?case using Cons.IH(3) [of "addOption options ch"] addOption_invariant [of options ch]
      by auto
  next
    case 4
    then show ?case using Cons.IH(4) [of "addOption options ch"] addOption_invariant [of options ch]
      by auto
  }
qed

lemma collect_options_length:
  assumes "distinct options" and "length options \<le> 4"
  shows "length (foldl addOption options others) = min 4 (card (set options \<union> pinyin ` set others))"
  using assms
proof (induction others arbitrary: options)
  case Nil
  then show ?case by (simp add: distinct_card)
next
  case (Cons ch others)
  note inv = addOption_invariant [OF Cons.prems, of ch]
  have ih: "length (foldl addOption (addOption options ch) others) =
      min 4 (card (set (addOption options ch) \<union> pinyin ` set others))"
    using Cons.IH [OF inv(1) inv(2)] .
  show ?case
  proof (cases "length options \<ge> 4")
    case True
    then have full: "length options = 4" using Cons.prems(2) by simp
    have same: "addOption options ch = options" using True by (simp add: addOption_def)
    have fin: "finite (set options \<union> pinyin ` set others)"
      "finite (set options \<union> pinyin ` set (ch # others))" by simp_all
    have "card (set options) \<le> card (set options \<union> pinyin ` set others)"
      using fin(1) by (intro card_mono) auto
    moreover have "card (set options) \<le> card (set options \<union> pinyin ` set (ch # others))"
      using fin(2) by (intro card_mono) auto
    moreover have "card (set options) = 4" using Cons.prems(1) full by (simp add: distinct_card)
    ultimately show ?thesis using ih by (simp add: same)
  next
    case False
    then have "set (addOption options ch) = insert (pinyin ch) (set options)"
      by (auto simp: addOption_def)
    then show ?thesis using ih by simp
  qed
qed

lemma permutation_props:
  assumes "\<forall>xs. mset (f xs) = mset xs"
  shows "set (f xs) = set xs" and "length (f xs) = length xs" and "distinct (f xs) = distinct xs"
proof -
  have m: "mset (f xs) = mset xs" using assms by blast
  show "set (f xs) = set xs" using m by (rule mset_eq_setD)
  show "length (f xs) = length xs" using m by (rule mset_eq_length)
  show "distinct (f xs) = distinct xs" using m by (rule mset_eq_imp_distinct_iff)
qed

text \<open>
  C7. For a question of the recognition quiz the options exist and consist of the pinyin
  of the target and of distractors: no option occurs twice, every distractor is the
  pinyin of a character of the pool with another identifier and differs from the pinyin of
  the target, and there are as many distractors as the pool has such pinyins, but at most
  three (and so at most four). An answer is graded correct exactly when the selected
  string is the pinyin of the target. The shuffles may be any permutations.
\<close>

theorem recognition_options:
  assumes shuffleC: "\<forall>xs. mset (shuffleChars xs) = mset xs"
    and shuffleO: "\<forall>xs. mset (shuffleOptions xs) = mset xs"
    and inrange: "index < length chars"
  shows "\<exists>options.
           generatePinyinOptions shuffleChars shuffleOptions allCharacters index chars = Some options
         \<and> pinyin (chars ! index) \<in> set options
         \<and> distinct options
         \<and> (\<forall>opt \<in> set options. opt \<noteq> pinyin (chars ! index) \<longrightarrow>
               (\<exists>c \<in> set allCharacters.
                  id_field c \<noteq> id_field (chars ! index) \<and> pinyin c = opt))
         \<and> length options =
               min 4 (card (insert (pinyin (chars ! index))
                              (pinyin ` {c \<in> set allCharacters.
                                           id_field c \<noteq> id_field (chars ! index)})))
         \<and> length (filter (\<lambda>opt. opt \<noteq> pinyin (chars ! index)) options) \<le> 3
         \<and> length (filter (\<lambda>opt. opt \<noteq> pinyin (chars ! index)) options) \<le> 4
         \<and> (\<forall>selected. handleRecognitionAnswer (chars ! index) selected
                           = (selected = pinyin (chars ! index)))"
proof -
  let ?t = "chars ! index"
  let ?others = "filter (\<lambda>c. id_field c \<noteq> id_field ?t) allCharacters"
  let ?opts = "foldl addOption [pinyin ?t] (shuffleChars ?others)"
  let ?options = "shuffleOptions (take 4 ?opts)"
  have init: "distinct [pinyin ?t]" "length [pinyin ?t] \<le> 4" by simp_all
  note c = collect_options [OF init, of "shuffleChars ?others"]
  have so: "set (shuffleChars ?others) = set ?others"
    using permutation_props(1) [OF shuffleC] .
  have t4: "take 4 ?opts = ?opts" using c(2) by simp
  have set_o: "set ?options = set ?opts"
    using permutation_props(1) [OF shuffleO, of "take 4 ?opts"] by (simp only: t4)
  have len_o: "length ?options = length ?opts"
    using permutation_props(2) [OF shuffleO, of "take 4 ?opts"] by (simp only: t4)
  have dist_o: "distinct ?options"
    using permutation_props(3) [OF shuffleO, of "take 4 ?opts"] c(1) by (simp only: t4)
  have gen: "generatePinyinOptions shuffleChars shuffleOptions allCharacters index chars
      = Some ?options"
    using inrange by (simp add: generatePinyinOptions_def Let_def)
  have target: "pinyin ?t \<in> set ?options"
    using c(3) by (simp add: set_o)
  have pool: "\<forall>opt \<in> set ?options. opt \<noteq> pinyin ?t \<longrightarrow>
      (\<exists>c \<in> set allCharacters. id_field c \<noteq> id_field ?t \<and> pinyin c = opt)"
    using c(4) by (auto simp: set_o so)
  have len: "length ?options =
      min 4 (card (insert (pinyin ?t)
                     (pinyin ` {c \<in> set allCharacters. id_field c \<noteq> id_field ?t})))"
  proof -
    have "length ?opts =
      min 4 (card (insert (pinyin ?t)
                     (pinyin ` {c \<in> set allCharacters. id_field c \<noteq> id_field ?t})))"
      using collect_options_length [OF init, of "shuffleChars ?others"]
      by (simp add: so)
    then show ?thesis by (simp only: len_o)
  qed
  have split: "length (filter (\<lambda>opt. opt \<noteq> pinyin ?t) ?options)
      + length (filter (\<lambda>opt. opt = pinyin ?t) ?options) = length ?options"
    using sum_length_filter_compl [of "\<lambda>opt. opt \<noteq> pinyin ?t" ?options] by simp
  have "filter (\<lambda>opt. opt = pinyin ?t) ?options \<noteq> []"
    using target by (simp add: filter_empty_conv)
  then have "1 \<le> length (filter (\<lambda>opt. opt = pinyin ?t) ?options)"
    by (simp add: Suc_leI)
  moreover have "length ?options \<le> 4" using c(2) by (simp only: len_o)
  ultimately have three: "length (filter (\<lambda>opt. opt \<noteq> pinyin ?t) ?options) \<le> 3"
    using split by linarith
  have grade: "\<forall>selected. handleRecognitionAnswer ?t selected = (selected = pinyin ?t)"
    by (simp add: handleRecognitionAnswer_def)
  from three have four: "length (filter (\<lambda>opt. opt \<noteq> pinyin ?t) ?options) \<le> 4" by simp
  show ?thesis
    by (intro exI [of _ ?options] conjI gen target dist_o pool len three four grade)
qed

theorem recognition_options_witness:
  "(\<forall>xs :: Character list. mset (rev xs) = mset xs)
   \<and> (\<forall>xs :: string list. mset (rev xs) = mset xs)
   \<and> 0 < length [good1]
   \<and> generatePinyinOptions rev rev quizPool 0 [good1] = Some [''a1'', ''b2'', ''c3'', ''hao3'']
   \<and> pinyin ([good1] ! 0) \<in> set [''a1'', ''b2'', ''c3'', ''hao3'']
   \<and> distinct [''a1'', ''b2'', ''c3'', ''hao3'']
   \<and> length (filter (\<lambda>opt. opt \<noteq> pinyin ([good1] ! 0)) [''a1'', ''b2'', ''c3'', ''hao3'']) \<le> 3
   \<and> handleRecognitionAnswer ([good1] ! 0) ''hao3''
   \<and> \<not> handleRecognitionAnswer ([good1] ! 0) ''ren2''"
proof -
  have p1: "\<forall>xs :: Character list. mset (rev xs) = mset xs" by simp
  have p2: "\<forall>xs :: string list. mset (rev xs) = mset xs" by simp
  have r: "0 < length [good1]" by simp
  have g: "generatePinyinOptions rev rev quizPool 0 [good1] = Some [''a1'', ''b2'', ''c3'', ''hao3'']"
    by (simp add: generatePinyinOptions_def quizPool_def good1_def good2_def person_def
        charA_def charB_def charC_def addOption_def Let_def)
  from recognition_options [OF p1 p2 r, of quizPool]
  obtain options where o: "generatePinyinOptions rev rev quizPool 0 [good1] = Some options"
    and t: "pinyin ([good1] ! 0) \<in> set options"
    and d: "distinct options"
    and l: "length (filter (\<lambda>opt. opt \<noteq> pinyin ([good1] ! 0)) options) \<le> 3"
    and h: "\<forall>selected. handleRecognitionAnswer ([good1] ! 0) selected
                           = (selected = pinyin ([good1] ! 0))"
    by blast
  have e: "options = [''a1'', ''b2'', ''c3'', ''hao3'']" using o g by simp
  have y: "handleRecognitionAnswer ([good1] ! 0) ''hao3''"
    using h by (simp add: good1_def)
  have n: "\<not> handleRecognitionAnswer ([good1] ! 0) ''ren2''"
    using h by (simp add: good1_def)
  show ?thesis
    using p1 p2 r g t d l y n unfolding e by (intro conjI)
qed

section \<open>Registration\<close>









section \<open>The session cookie and the quiz-history route\<close>














end
